theory Spec2Isabelle
  imports Main
begin

section \<open>CareCompass: the request handlers of server.js\<close>

text \<open>
  The handlers of \<^verbatim>\<open>server.js\<close> are embedded as functions over the
  collections they read and write. A collection is the list of its documents in
  insertion order. \<^verbatim>\<open>Date.now()\<close> is an argument \<open>now\<close> (epoch
  milliseconds), the output of \<^verbatim>\<open>Math.random().toString(36)\<close> is an
  argument, and so is the external text-generation service. A handler that answers
  \<^verbatim>\<open>res.status(n).json({ error: msg })\<close> returns \<open>Inl (n, msg)\<close>.
  The \<^verbatim>\<open>catch\<close> branches (status 500) answer faults of the database
  driver; the database is taken to be available, so they are not part of the model.
\<close>

type_synonym failure = "nat \<times> string"

subsection \<open>JavaScript helpers\<close>

text \<open>\<^verbatim>\<open>a || b\<close> on optional strings: \<open>None\<close> is \<^verbatim>\<open>undefined\<close>,
  and the empty string is falsy as well.\<close>

definition js_or :: "string option \<Rightarrow> string option \<Rightarrow> string option" where
  "js_or a b = (case a of None \<Rightarrow> b | Some s \<Rightarrow> if s = [] then b else Some s)"

text \<open>\<^verbatim>\<open>a || 'literal'\<close>.\<close>

definition or_default :: "string option \<Rightarrow> string \<Rightarrow> string" where
  "or_default a d = (case a of None \<Rightarrow> d | Some s \<Rightarrow> if s = [] then d else s)"

text \<open>Truthiness of an optional string.\<close>

definition truthy :: "string option \<Rightarrow> bool" where
  "truthy a = (case a of None \<Rightarrow> False | Some s \<Rightarrow> s \<noteq> [])"

text \<open>\<^verbatim>\<open>s.replace(pat, rep)\<close> with a string pattern replaces the first
  occurrence only.\<close>

fun replace_first :: "string \<Rightarrow> string \<Rightarrow> string \<Rightarrow> string" where
  "replace_first pat rep [] = (if pat = [] then rep else [])"
| "replace_first pat rep (c # cs) =
     (if take (length pat) (c # cs) = pat then rep @ drop (length pat) (c # cs)
      else c # replace_first pat rep cs)"

text \<open>\<^verbatim>\<open>s.slice(a, b)\<close> for \<open>0 \<le> a \<le> b\<close>.\<close>

definition slice :: "nat \<Rightarrow> nat \<Rightarrow> string \<Rightarrow> string" where
  "slice a b s = take (b - a) (drop a s)"

text \<open>\<^verbatim>\<open>Model.deleteOne(filter)\<close> removes the first matching document,
  \<^verbatim>\<open>Model.deleteMany(filter)\<close> all of them.\<close>

fun deleteOne :: "('a \<Rightarrow> bool) \<Rightarrow> 'a list \<Rightarrow> 'a list" where
  "deleteOne P [] = []"
| "deleteOne P (x # xs) = (if P x then xs else x # deleteOne P xs)"

definition deleteMany :: "('a \<Rightarrow> bool) \<Rightarrow> 'a list \<Rightarrow> 'a list" where
  "deleteMany P xs = filter (\<lambda>x. \<not> P x) xs"

subsection \<open>Sessions and the authentication middleware\<close>

record user =
  uid :: string
  uname :: string
  email :: string
  role :: string

record session =
  token :: string
  suser :: user
  sess_expiresAt :: int

text \<open>\<^verbatim>\<open>req.headers.authorization?.replace('Bearer ', '') || req.query.token\<close>\<close>

definition bearer_token :: "string option \<Rightarrow> string option \<Rightarrow> string option" where
  "bearer_token authorization qtoken =
     js_or (map_option (replace_first ''Bearer '' []) authorization) qtoken"

definition requireAuth ::
  "string option \<Rightarrow> string option \<Rightarrow> int \<Rightarrow> session list \<Rightarrow> failure + user" where
  "requireAuth authorization qtoken now sessions =
     (case bearer_token authorization qtoken of
        None \<Rightarrow> Inl (401, ''Authentication required'')
      | Some t \<Rightarrow>
          if t = [] then Inl (401, ''Authentication required'')
          else (case find (\<lambda>s. token s = t) sessions of
                  None \<Rightarrow> Inl (401, ''Invalid or expired session'')
                | Some s \<Rightarrow>
                    if sess_expiresAt s < now then Inl (401, ''Invalid or expired session'')
                    else Inr (suser s)))"

subsection \<open>Documents and collections\<close>

text \<open>
  The Patient schema (models/Patient.js): \<^verbatim>\<open>id\<close> is a required, unique string,
  \<^verbatim>\<open>assignedDoctorId\<close> a string with default \<^verbatim>\<open>null\<close>,
  \<^verbatim>\<open>assignedDoctorIds\<close> an array of strings with default \<^verbatim>\<open>[]\<close>;
  the schema is not strict, and \<^verbatim>\<open>name\<close> and \<^verbatim>\<open>diagnosis\<close> are the
  further fields the handlers read. A stored document may predate the array field, so the
  field is absent, \<^verbatim>\<open>null\<close> or an array. For \<open>assignedDoctorId\<close>,
  \<open>None\<close> stands for \<^verbatim>\<open>null\<close> or a missing field.
\<close>

datatype doctor_ids = Absent | Null | Ids "string list"

record patient =
  pid :: string
  assignedDoctorId :: "string option"
  assignedDoctorIds :: doctor_ids
  pname :: "string option"
  diagnosis :: "string option"

text \<open>The body of \<^verbatim>\<open>POST /api/patients\<close>; \<open>None\<close> is a missing key.\<close>

record patient_body =
  b_id :: "string option"
  b_assignedDoctorId :: "string option"
  b_assignedDoctorIds :: doctor_ids
  b_name :: "string option"
  b_diagnosis :: "string option"

text \<open>The log's observation fields; each is optional.\<close>

record log_content =
  mood :: "string option"
  sleepStart :: "string option"
  sleepEnd :: "string option"
  hydration :: "string option"
  food :: "string option"
  meds :: "string option"
  antecedent :: "string option"
  behavior :: "string option"
  consequence :: "string option"
  log_note :: "string option"

record log =
  log_patientId :: string
  log_createdAt :: int
  content :: log_content

text \<open>The body of \<^verbatim>\<open>POST /api/logs/:patientId\<close>: the observation fields, and
  possibly keys named \<^verbatim>\<open>patientId\<close> and \<^verbatim>\<open>createdAt\<close>.\<close>

record log_body =
  lb_patientId :: "string option"
  lb_createdAt :: "int option"
  lb_content :: log_content

record cnote =
  note_patientId :: string
  note_text :: string
  note_createdAt :: int

record share_link =
  link_patientId :: string
  code :: string
  url :: string
  link_expiresAt :: int

record db =
  patients :: "patient list"
  logs :: "log list"
  clinicianNotes :: "cnote list"
  shareLinks :: "share_link list"

definition empty_db :: db where
  "empty_db = \<lparr>patients = [], logs = [], clinicianNotes = [], shareLinks = []\<rparr>"

subsection \<open>Patients\<close>

text \<open>
  The query filters of \<^verbatim>\<open>GET /api/patients\<close>, one per disjunct of the
  \<^verbatim>\<open>$or\<close>: equality on the legacy field, membership in the array,
  \<^verbatim>\<open>$size: 0\<close>, \<^verbatim>\<open>null\<close> (which also matches a missing field)
  and \<^verbatim>\<open>$exists: false\<close>.
\<close>

definition legacy_is :: "string \<Rightarrow> patient \<Rightarrow> bool" where
  "legacy_is e p = (assignedDoctorId p = Some e)"

definition ids_has :: "string \<Rightarrow> patient \<Rightarrow> bool" where
  "ids_has e p = (case assignedDoctorIds p of Ids l \<Rightarrow> e \<in> set l | _ \<Rightarrow> False)"

definition ids_size0 :: "patient \<Rightarrow> bool" where
  "ids_size0 p = (case assignedDoctorIds p of Ids l \<Rightarrow> l = [] | _ \<Rightarrow> False)"

definition ids_null :: "patient \<Rightarrow> bool" where
  "ids_null p = (case assignedDoctorIds p of Ids l \<Rightarrow> False | _ \<Rightarrow> True)"

definition ids_missing :: "patient \<Rightarrow> bool" where
  "ids_missing p = (case assignedDoctorIds p of Absent \<Rightarrow> True | _ \<Rightarrow> False)"

definition listPatients :: "user \<Rightarrow> db \<Rightarrow> patient list" where
  "listPatients u d =
     (if role u = ''caregiver'' then patients d
      else if role u = ''doctor'' then
        filter (\<lambda>p. legacy_is (email u) p \<or> ids_has (email u) p \<or> ids_size0 p
                     \<or> ids_null p \<or> ids_missing p) (patients d)
      else [])"

text \<open>
  \<^verbatim>\<open>Patient.findOne({ id: v })\<close>. When \<^verbatim>\<open>v\<close> is
  \<^verbatim>\<open>undefined\<close> (\<open>None\<close>) the driver sends \<^verbatim>\<open>null\<close>, which
  matches only a document without an id; every Patient document carries one.
\<close>

definition match_id :: "string option \<Rightarrow> patient \<Rightarrow> bool" where
  "match_id v p = (case v of None \<Rightarrow> False | Some i \<Rightarrow> pid p = i)"

definition findOne_id :: "string option \<Rightarrow> patient list \<Rightarrow> patient option" where
  "findOne_id v ps = find (match_id v) ps"

text \<open>\<^verbatim>\<open>Patient.create(p)\<close>: the schema's defaults fill the missing fields.\<close>

definition Patient_create :: "string \<Rightarrow> patient_body \<Rightarrow> patient" where
  "Patient_create i p =
     \<lparr>pid = i,
      assignedDoctorId = b_assignedDoctorId p,
      assignedDoctorIds = (case b_assignedDoctorIds p of Absent \<Rightarrow> Ids [] | v \<Rightarrow> v),
      pname = b_name p,
      diagnosis = b_diagnosis p\<rparr>"

definition createPatient ::
  "user \<Rightarrow> patient_body option \<Rightarrow> db \<Rightarrow> (failure + patient) \<times> db" where
  "createPatient u body d =
     (case body of
        None \<Rightarrow> (Inl (400, ''id required''), d)
      | Some p \<Rightarrow>
          (case b_id p of
             None \<Rightarrow> (Inl (400, ''id required''), d)
           | Some i \<Rightarrow>
               if i = [] then (Inl (400, ''id required''), d)
               else (case findOne_id (Some i) (patients d) of
                       Some ex \<Rightarrow> (Inl (409, ''patient exists''), d)
                     | None \<Rightarrow>
                         let p' = (if role u = ''doctor''
                                   then p\<lparr>b_assignedDoctorIds := Ids [email u]\<rparr> else p);
                             patient = Patient_create i p'
                         in (Inr patient, d\<lparr>patients := patients d @ [patient]\<rparr>))))"

text \<open>\<^verbatim>\<open>patient.save()\<close> writes the changed document back in its place.\<close>

fun updateFirst :: "('a \<Rightarrow> bool) \<Rightarrow> ('a \<Rightarrow> 'a) \<Rightarrow> 'a list \<Rightarrow> 'a list" where
  "updateFirst P f [] = []"
| "updateFirst P f (x # xs) = (if P x then f x # xs else x # updateFirst P f xs)"

text \<open>
  \<^verbatim>\<open>POST /api/patients/:id/assign\<close>. The route binds the path segment to
  \<^verbatim>\<open>req.params.id\<close>; the handler reads
  \<^verbatim>\<open>const { patientId } = req.params\<close>. \<open>doctorEmails\<close> is \<open>None\<close>
  when the body has no array under that key.
\<close>

definition assign_route_params :: "string \<Rightarrow> (string \<rightharpoonup> string)" where
  "assign_route_params x = [''id'' \<mapsto> x]"

definition assignPatient ::
  "user \<Rightarrow> (string \<rightharpoonup> string) \<Rightarrow> string list option \<Rightarrow> db \<Rightarrow> (failure + patient) \<times> db" where
  "assignPatient u params doctorEmails d =
     (if role u \<noteq> ''caregiver'' then (Inl (403, ''Only caregivers can assign patients''), d)
      else
        let patientId = params ''patientId'' in
        (case doctorEmails of
           None \<Rightarrow> (Inl (400, ''doctorEmails array required''), d)
         | Some l \<Rightarrow>
             if length l = 0 then (Inl (400, ''doctorEmails array required''), d)
             else (case findOne_id patientId (patients d) of
                     None \<Rightarrow> (Inl (404, ''Patient not found''), d)
                   | Some patient \<Rightarrow>
                       (Inr (patient\<lparr>assignedDoctorIds := Ids l\<rparr>),
                        d\<lparr>patients := updateFirst (match_id patientId)
                                        (\<lambda>p. p\<lparr>assignedDoctorIds := Ids l\<rparr>) (patients d)\<rparr>))))"

definition deletePatient :: "string \<Rightarrow> db \<Rightarrow> (failure + bool) \<times> db" where
  "deletePatient i d =
     (Inr True,
      \<lparr>patients = deleteOne (\<lambda>p. pid p = i) (patients d),
       logs = deleteMany (\<lambda>l. log_patientId l = i) (logs d),
       clinicianNotes = deleteMany (\<lambda>n. note_patientId n = i) (clinicianNotes d),
       shareLinks = deleteOne (\<lambda>s. link_patientId s = i) (shareLinks d)\<rparr>)"

subsection \<open>Logs and notes\<close>

text \<open>\<^verbatim>\<open>find({ patientId }).sort({ createdAt: -1 })\<close>\<close>

definition listLogs :: "string \<Rightarrow> db \<Rightarrow> log list" where
  "listLogs i d = sort_key (\<lambda>l. - log_createdAt l) (filter (\<lambda>l. log_patientId l = i) (logs d))"

definition empty_content :: log_content where
  "empty_content =
     \<lparr>mood = None, sleepStart = None, sleepEnd = None, hydration = None, food = None,
      meds = None, antecedent = None, behavior = None, consequence = None, log_note = None\<rparr>"

text \<open>
  \<^verbatim>\<open>{ patientId: req.params.patientId, createdAt: Date.now(), ...payload }\<close>:
  the spread comes last, so a key of the payload replaces the one written before it.
\<close>

definition createLog :: "string \<Rightarrow> int \<Rightarrow> log_body option \<Rightarrow> db \<Rightarrow> log \<times> db" where
  "createLog patientId now body d =
     (let payload = (case body of
                       None \<Rightarrow> \<lparr>lb_patientId = None, lb_createdAt = None,
                                 lb_content = empty_content\<rparr>
                     | Some b \<Rightarrow> b);
          l = \<lparr>log_patientId = (case lb_patientId payload of None \<Rightarrow> patientId | Some v \<Rightarrow> v),
               log_createdAt = (case lb_createdAt payload of None \<Rightarrow> now | Some t \<Rightarrow> t),
               content = lb_content payload\<rparr>
      in (l, d\<lparr>logs := logs d @ [l]\<rparr>))"

definition listNotes :: "string \<Rightarrow> db \<Rightarrow> cnote list" where
  "listNotes i d = sort_key (\<lambda>n. - note_createdAt n) (filter (\<lambda>n. note_patientId n = i) (clinicianNotes d))"

definition createNote :: "string \<Rightarrow> int \<Rightarrow> string option \<Rightarrow> db \<Rightarrow> cnote \<times> db" where
  "createNote patientId now body_note d =
     (let n = \<lparr>note_patientId = patientId, note_text = or_default body_note [],
               note_createdAt = now\<rparr>
      in (n, d\<lparr>clinicianNotes := clinicianNotes d @ [n]\<rparr>))"

subsection \<open>Share links\<close>

text \<open>\<^verbatim>\<open>toUpperCase()\<close> on ASCII text.\<close>

definition upper_char :: "char \<Rightarrow> char" where
  "upper_char c =
     (case map_of (zip ''abcdefghijklmnopqrstuvwxyz'' ''ABCDEFGHIJKLMNOPQRSTUVWXYZ'') c of
        None \<Rightarrow> c | Some u \<Rightarrow> u)"

definition toUpperCase :: "string \<Rightarrow> string" where
  "toUpperCase s = map upper_char s"

text \<open>The digits \<^verbatim>\<open>toString(36)\<close> writes, and their upper-case forms.\<close>

definition base36_digit :: "char \<Rightarrow> bool" where
  "base36_digit c = (c \<in> set ''0123456789abcdefghijklmnopqrstuvwxyz'')"

definition upper_alnum :: "char \<Rightarrow> bool" where
  "upper_alnum c = (c \<in> set ''0123456789ABCDEFGHIJKLMNOPQRSTUVWXYZ'')"

text \<open>
  \<^verbatim>\<open>POST /api/share/:patientId\<close>. \<open>rnd36\<close> is the value of
  \<^verbatim>\<open>Math.random().toString(36)\<close>: \<^verbatim>\<open>0\<close>, or \<^verbatim>\<open>0.\<close>
  followed by the base-36 digits of the random number.
\<close>

definition createShareLink ::
  "string \<Rightarrow> string \<Rightarrow> string \<Rightarrow> int \<Rightarrow> db \<Rightarrow> share_link \<times> db" where
  "createShareLink port i rnd36 now d =
     (let c = toUpperCase (slice 2 8 rnd36);
          u = ''http://localhost:'' @ port @ ''/share/'' @ c;
          e = now + 24 * 60 * 60 * 1000;
          remaining = deleteOne (\<lambda>s. link_patientId s = i) (shareLinks d);
          shareLink = \<lparr>link_patientId = i, code = c, url = u, link_expiresAt = e\<rparr>
      in (shareLink, d\<lparr>shareLinks := remaining @ [shareLink]\<rparr>))"

definition getShareLink :: "string \<Rightarrow> int \<Rightarrow> db \<Rightarrow> (failure + share_link) \<times> db" where
  "getShareLink i now d =
     (case find (\<lambda>s. link_patientId s = i) (shareLinks d) of
        None \<Rightarrow> (Inl (404, []), d)
      | Some link \<Rightarrow>
          if link_expiresAt link < now
          then (Inl (404, []),
                d\<lparr>shareLinks := deleteOne (\<lambda>s. link_patientId s = i) (shareLinks d)\<rparr>)
          else (Inr link, d))"


subsection \<open>The assignment backfill (migrate-patient-assignments.js)\<close>

definition unassigned :: "patient \<Rightarrow> bool" where
  "unassigned p = (ids_size0 p \<or> ids_null p \<or> ids_missing p)"

text \<open>\<open>doctorEmails\<close> are the e-mail addresses of the stored doctors; the script stops
  when there is none, or when no patient is unassigned.\<close>

definition migratePatients :: "string list \<Rightarrow> db \<Rightarrow> db" where
  "migratePatients doctorEmails d =
     (if length doctorEmails = 0 then d
      else if length (filter unassigned (patients d)) = 0 then d
      else d\<lparr>patients :=
               map (\<lambda>p. if unassigned p then p\<lparr>assignedDoctorIds := Ids doctorEmails\<rparr> else p)
                   (patients d)\<rparr>)"

subsection \<open>The analysis generator\<close>

definition nl :: string where
  "nl = [CHR 0x0A]"

definition dquote :: string where
  "dquote = [CHR 0x22]"

text \<open>The em dash of \<^verbatim>\<open>l.mood !== '...'\<close>, in UTF-8.\<close>

definition em_dash :: string where
  "em_dash = [CHR 0xE2, CHR 0x80, CHR 0x94]"

fun string_of_nat :: "nat \<Rightarrow> string" where
  "string_of_nat n =
     (if n < 10 then [''0123456789'' ! n]
      else string_of_nat (n div 10) @ [''0123456789'' ! (n mod 10)])"

declare string_of_nat.simps [simp del]

text \<open>\<^verbatim>\<open>xs.join(sep)\<close>\<close>

fun join :: "string \<Rightarrow> string list \<Rightarrow> string" where
  "join sep [] = []"
| "join sep [x] = x"
| "join sep (x # y # ys) = x @ sep @ join sep (y # ys)"

text \<open>\<^verbatim>\<open>s.includes(sub)\<close>\<close>

fun str_includes :: "string \<Rightarrow> string \<Rightarrow> bool" where
  "str_includes sub [] = (sub = [])"
| "str_includes sub (c # cs) = (take (length sub) (c # cs) = sub \<or> str_includes sub cs)"

record fmt_log =
  f_date :: string
  f_time :: string
  f_mood :: string
  f_sleep :: string
  f_hydration :: string
  f_food :: string
  f_medication :: string
  f_antecedent :: string
  f_behavior :: string
  f_consequence :: string
  f_note :: string

record patient_data =
  pd_patientId :: string
  patientName :: string
  pd_diagnosis :: string
  daysAnalyzed :: nat
  pd_logs :: "fmt_log list"

text \<open>The entry of \<^verbatim>\<open>patientData.logs\<close> for one log. The two locale-dependent
  renderings of the timestamp are arguments.\<close>

definition format_log :: "(int \<Rightarrow> string) \<Rightarrow> (int \<Rightarrow> string) \<Rightarrow> log \<Rightarrow> fmt_log" where
  "format_log toLocaleDateString toLocaleTimeString l =
     \<lparr>f_date = toLocaleDateString (log_createdAt l),
      f_time = toLocaleTimeString (log_createdAt l),
      f_mood = or_default (mood (content l)) ''Not recorded'',
      f_sleep = (if truthy (sleepStart (content l)) \<and> truthy (sleepEnd (content l))
                 then or_default (sleepStart (content l)) [] @ '' - ''
                      @ or_default (sleepEnd (content l)) []
                 else ''Not recorded''),
      f_hydration = or_default (hydration (content l)) ''Not recorded'',
      f_food = or_default (food (content l)) ''Not recorded'',
      f_medication = or_default (meds (content l)) ''Not recorded'',
      f_antecedent = or_default (antecedent (content l)) [],
      f_behavior = or_default (behavior (content l)) [],
      f_consequence = or_default (consequence (content l)) [],
      f_note = or_default (log_note (content l)) []\<rparr>"

text \<open>
  \<^verbatim>\<open>((c / n) * 100).toFixed(0)\<close>, read back as a number by the comparisons.
  \<open>None\<close> is \<^verbatim>\<open>NaN\<close> (\<open>n = 0\<close>). \<open>(200c + n) div 2n\<close> is the exact
  quotient \<open>100c / n\<close> rounded to the nearest integer, a half upwards, as
  \<^verbatim>\<open>toFixed\<close> rounds. When the exact quotient is a half-integer
  (\<open>200c mod 2n = n\<close>) the double that JavaScript computes may lie just below it
  (\<^verbatim>\<open>(23 / 40) * 100\<close> is \<^verbatim>\<open>57.49999999999999\<close>) and is then rounded
  down; \<open>half_up c n\<close> says that it does not lie below.
\<close>

definition toFixed0 :: "(nat \<Rightarrow> nat \<Rightarrow> bool) \<Rightarrow> nat \<Rightarrow> nat \<Rightarrow> nat option" where
  "toFixed0 half_up c n =
     (if n = 0 then None
      else if (200 * c) mod (2 * n) = n \<and> \<not> half_up c n
           then Some ((200 * c + n) div (2 * n) - 1)
           else Some ((200 * c + n) div (2 * n)))"

definition percent_text :: "nat option \<Rightarrow> string" where
  "percent_text p = (case p of None \<Rightarrow> ''NaN'' | Some k \<Rightarrow> string_of_nat k)"

text \<open>\<^verbatim>\<open>percent < k\<close> and \<^verbatim>\<open>percent >= k\<close>; both are false for
  \<^verbatim>\<open>NaN\<close>.\<close>

definition pct_lt :: "nat option \<Rightarrow> nat \<Rightarrow> bool" where
  "pct_lt p k = (case p of None \<Rightarrow> False | Some v \<Rightarrow> v < k)"

definition pct_ge :: "nat option \<Rightarrow> nat \<Rightarrow> bool" where
  "pct_ge p k = (case p of None \<Rightarrow> False | Some v \<Rightarrow> k \<le> v)"

definition moods :: "patient_data \<Rightarrow> string list" where
  "moods pd =
     map f_mood (filter (\<lambda>l. f_mood l \<noteq> [] \<and> f_mood l \<noteq> ''Not recorded''
                             \<and> f_mood l \<noteq> em_dash) (pd_logs pd))"

definition foodCompliance :: "patient_data \<Rightarrow> nat" where
  "foodCompliance pd = length (filter (\<lambda>l. f_food l = ''full'') (pd_logs pd))"

definition medCompliance :: "patient_data \<Rightarrow> nat" where
  "medCompliance pd = length (filter (\<lambda>l. f_medication l = ''given'') (pd_logs pd))"

definition hydrationCompliance :: "patient_data \<Rightarrow> nat" where
  "hydrationCompliance pd =
     length (filter (\<lambda>l. f_hydration l \<noteq> []
                         \<and> (str_includes ''drank'' (f_hydration l) \<or> f_hydration l = ''full''))
                    (pd_logs pd))"

definition foodPercent :: "(nat \<Rightarrow> nat \<Rightarrow> bool) \<Rightarrow> patient_data \<Rightarrow> nat option" where
  "foodPercent half_up pd = toFixed0 half_up (foodCompliance pd) (length (pd_logs pd))"

definition medPercent :: "(nat \<Rightarrow> nat \<Rightarrow> bool) \<Rightarrow> patient_data \<Rightarrow> nat option" where
  "medPercent half_up pd = toFixed0 half_up (medCompliance pd) (length (pd_logs pd))"

definition hydrationPercent :: "(nat \<Rightarrow> nat \<Rightarrow> bool) \<Rightarrow> patient_data \<Rightarrow> nat option" where
  "hydrationPercent half_up pd =
     toFixed0 half_up (hydrationCompliance pd) (length (pd_logs pd))"

text \<open>The sentences appended after \<^verbatim>\<open>**Recommendations:**\<close>, in order.\<close>

definition recommendations :: "(nat \<Rightarrow> nat \<Rightarrow> bool) \<Rightarrow> patient_data \<Rightarrow> string list" where
  "recommendations half_up pd =
     (if pct_lt (foodPercent half_up pd) 70 then [''Monitor food intake closely. ''] else [])
     @ (if pct_lt (medPercent half_up pd) 90
        then [''Review medication schedule adherence. ''] else [])
     @ (if pct_lt (hydrationPercent half_up pd) 60
        then [''Encourage increased hydration. ''] else [])
     @ (if pct_ge (foodPercent half_up pd) 70 \<and> pct_ge (medPercent half_up pd) 90
           \<and> pct_ge (hydrationPercent half_up pd) 60
        then [''Overall compliance is good. Continue current care plan.''] else [])"

definition generateBasicAnalysis :: "(nat \<Rightarrow> nat \<Rightarrow> bool) \<Rightarrow> patient_data \<Rightarrow> string" where
  "generateBasicAnalysis half_up pd =
     (let avgMood = (if length (moods pd) > 0 then join '', '' (moods pd)
                     else ''Insufficient data'')
      in ''**7-Day Analysis for '' @ patientName pd @ ''**'' @ nl @ nl
         @ ''**Overview:** This analysis covers '' @ string_of_nat (length (pd_logs pd))
         @ '' days of recorded data for '' @ patientName pd @ '' ('' @ pd_diagnosis pd
         @ '').'' @ nl @ nl
         @ ''**Mood Patterns:** ''
         @ (if length (moods pd) > 0 then ''Observed moods: '' @ avgMood
            else ''Limited mood data available'') @ ''.'' @ nl @ nl
         @ ''**Compliance Metrics:**'' @ nl
         @ ''- Food intake: '' @ percent_text (foodPercent half_up pd) @ ''% full meals'' @ nl
         @ ''- Medication: '' @ percent_text (medPercent half_up pd) @ ''% given on time'' @ nl
         @ ''- Hydration: '' @ percent_text (hydrationPercent half_up pd) @ ''% compliance''
         @ nl @ nl
         @ ''**Recommendations:** ''
         @ concat (recommendations half_up pd)
         @ nl @ nl
         @ ''*Note: For detailed AI-powered analysis, configure OPENAI_API_KEY in your environment variables.*'')"

definition prompt_day :: "nat \<times> fmt_log \<Rightarrow> string" where
  "prompt_day il =
     (case il of (idx, l) \<Rightarrow>
        nl @ ''Day '' @ string_of_nat (idx + 1) @ '' ('' @ f_date l @ ''):'' @ nl
        @ ''- Time: '' @ f_time l @ nl
        @ ''- Mood: '' @ f_mood l @ nl
        @ ''- Sleep: '' @ f_sleep l @ nl
        @ ''- Hydration: '' @ f_hydration l @ nl
        @ ''- Food: '' @ f_food l @ nl
        @ ''- Medication: '' @ f_medication l @ nl
        @ (if f_antecedent l \<noteq> [] then ''- Antecedent: '' @ f_antecedent l else []) @ nl
        @ (if f_behavior l \<noteq> [] then ''- Behavior: '' @ f_behavior l else []) @ nl
        @ (if f_consequence l \<noteq> [] then ''- Consequence: '' @ f_consequence l else []) @ nl
        @ (if f_note l \<noteq> [] then ''- Note: '' @ f_note l else []) @ nl)"

definition build_prompt :: "patient_data \<Rightarrow> string" where
  "build_prompt pd =
     ''You are a healthcare AI assistant analyzing patient care data. Analyze the following 7-day patient data and provide a comprehensive text analysis focusing on:''
     @ nl @ nl
     @ ''1. Overall condition trends (improving, stable, or concerning)'' @ nl
     @ ''2. Sleep patterns and quality'' @ nl
     @ ''3. Nutrition and hydration compliance'' @ nl
     @ ''4. Medication adherence'' @ nl
     @ ''5. Mood patterns and behavioral observations'' @ nl
     @ ''6. Any concerning patterns or red flags'' @ nl
     @ ''7. Recommendations for care adjustments'' @ nl @ nl
     @ ''Patient Information:'' @ nl
     @ ''- Name: '' @ patientName pd @ nl
     @ ''- Diagnosis: '' @ pd_diagnosis pd @ nl
     @ ''- Days with data: '' @ string_of_nat (daysAnalyzed pd) @ nl @ nl
     @ ''Daily Logs:'' @ nl
     @ join nl (map prompt_day (enumerate 0 (pd_logs pd))) @ nl @ nl
     @ ''Provide a detailed, professional analysis in 3-4 paragraphs. Be specific about patterns, concerns, and recommendations.''"

record analysis_response =
  analysis :: string
  hasData :: bool
  generatedAt :: "int option"
  ar_error :: "string option"
  ar_note :: "string option"

text \<open>
  \<^verbatim>\<open>GET /api/analysis/:patientId\<close>. \<open>ai\<close> is the text-generation service:
  \<open>None\<close> when \<^verbatim>\<open>OpenAI && process.env.OPENAI_API_KEY\<close> is falsy, otherwise
  the function from the prompt to the generated text, \<open>None\<close> when the call throws.
  The second component of the result lists the prompts sent to the service while the
  request was served. \<open>now\<close> and \<open>now'\<close> are the two readings of the clock.
\<close>

definition generateAnalysis ::
  "(string \<Rightarrow> string option) option \<Rightarrow> (nat \<Rightarrow> nat \<Rightarrow> bool) \<Rightarrow> (int \<Rightarrow> string) \<Rightarrow> (int \<Rightarrow> string)
   \<Rightarrow> int \<Rightarrow> int \<Rightarrow> string \<Rightarrow> db \<Rightarrow> (failure + analysis_response) \<times> string list" where
  "generateAnalysis ai half_up toLocaleDateString toLocaleTimeString now now' patientId d =
     (case findOne_id (Some patientId) (patients d) of
        None \<Rightarrow>
          (Inl (404, ''Patient with ID '' @ dquote @ patientId @ dquote
                     @ '' not found in database''), [])
      | Some patient \<Rightarrow>
          let sevenDaysAgo = now - (7 * 24 * 60 * 60 * 1000);
              ls = sort_key log_createdAt
                     (filter (\<lambda>l. log_patientId l = patientId \<and> sevenDaysAgo \<le> log_createdAt l)
                             (logs d))
          in if length ls = 0
             then (Inr \<lparr>analysis = ''No data available for the last 7 days. Please ensure patient logs are being recorded regularly.'',
                        hasData = False, generatedAt = None, ar_error = None, ar_note = None\<rparr>,
                   [])
             else
               let patientData =
                     \<lparr>pd_patientId = pid patient,
                      patientName = or_default (pname patient) (''Patient '' @ pid patient),
                      pd_diagnosis = or_default (diagnosis patient) ''Not specified'',
                      daysAnalyzed = length ls,
                      pd_logs = map (format_log toLocaleDateString toLocaleTimeString) ls\<rparr>
               in (case ai of
                     Some complete \<Rightarrow>
                       (case complete (build_prompt patientData) of
                          Some text \<Rightarrow>
                            (Inr \<lparr>analysis = text, hasData = True, generatedAt = Some now',
                                   ar_error = None, ar_note = None\<rparr>,
                             [build_prompt patientData])
                        | None \<Rightarrow>
                            (Inr \<lparr>analysis = generateBasicAnalysis half_up patientData,
                                   hasData = True, generatedAt = None,
                                   ar_error = Some ''AI analysis unavailable, showing basic analysis'',
                                   ar_note = None\<rparr>,
                             [build_prompt patientData]))
                   | None \<Rightarrow>
                       (Inr \<lparr>analysis = generateBasicAnalysis half_up patientData,
                              hasData = True, generatedAt = None, ar_error = None,
                              ar_note = Some ''AI analysis not configured. Set OPENAI_API_KEY in .env file for AI-powered analysis.''\<rparr>,
                        [])))"

subsection \<open>The states the handlers produce\<close>

text \<open>The four collections start empty and change only through the handlers above
  and the backfill; requests are served one after the other.\<close>

inductive reachable :: "db \<Rightarrow> bool" where
  r_init: "reachable empty_db"
| r_createPatient: "reachable d \<Longrightarrow> reachable (snd (createPatient u body d))"
| r_assignPatient:
    "reachable d \<Longrightarrow> reachable (snd (assignPatient u (assign_route_params x) l d))"
| r_deletePatient: "reachable d \<Longrightarrow> reachable (snd (deletePatient i d))"
| r_createLog: "reachable d \<Longrightarrow> reachable (snd (createLog i now lbody d))"
| r_createNote: "reachable d \<Longrightarrow> reachable (snd (createNote i now nbody d))"
| r_createShareLink: "reachable d \<Longrightarrow> reachable (snd (createShareLink port i rnd36 now d))"
| r_getShareLink: "reachable d \<Longrightarrow> reachable (snd (getShareLink i now d))"
| r_migrate: "reachable d \<Longrightarrow> reachable (migratePatients emails d)"

definition links_exclusive :: "db \<Rightarrow> bool" where
  "links_exclusive d = distinct (map link_patientId (shareLinks d))"

definition ids_unique :: "db \<Rightarrow> bool" where
  "ids_unique d = distinct (map pid (patients d))"

subsection \<open>Example requests\<close>

definition dr_dee :: user where
  "dr_dee = \<lparr>uid = ''1'', uname = ''Dee'', email = ''d@x'', role = ''doctor''\<rparr>"

definition cg_cam :: user where
  "cg_cam = \<lparr>uid = ''2'', uname = ''Cam'', email = ''c@x'', role = ''caregiver''\<rparr>"

definition pat1 :: patient where
  "pat1 = \<lparr>pid = ''p1'', assignedDoctorId = None, assignedDoctorIds = Ids [''a@x''],
           pname = Some ''Pat'', diagnosis = None\<rparr>"

definition db1 :: db where
  "db1 = \<lparr>patients = [pat1], logs = [], clinicianNotes = [], shareLinks = []\<rparr>"


definition pat0 :: patient where
  "pat0 = \<lparr>pid = ''p0'', assignedDoctorId = None, assignedDoctorIds = Ids [],
           pname = None, diagnosis = None\<rparr>"

definition db0 :: db where
  "db0 = \<lparr>patients = [pat0, pat1], logs = [], clinicianNotes = [], shareLinks = []\<rparr>"

definition body1 :: patient_body where
  "body1 = \<lparr>b_id = Some ''p1'', b_assignedDoctorId = None, b_assignedDoctorIds = Ids [''o@x''],
            b_name = Some ''Pat'', b_diagnosis = None\<rparr>"

text \<open>A caregiver creates patient \<open>p1\<close>, then a log, a note and a share link for it.\<close>

definition db2 :: db where
  "db2 = snd (createShareLink ''3000'' ''p1'' ''0.4fzyo82mvyr'' 2000
           (snd (createNote ''p1'' 1500 (Some ''calm day'')
             (snd (createLog ''p1'' 1200 None
               (snd (createPatient cg_cam (Some body1) empty_db)))))))"

definition old_log :: log where
  "old_log = \<lparr>log_patientId = ''p1'', log_createdAt = 1000, content = empty_content\<rparr>"

definition echo_ai :: "string \<Rightarrow> string option" where
  "echo_ai prompt = Some prompt"

definition always_up :: "nat \<Rightarrow> nat \<Rightarrow> bool" where
  "always_up c n = True"

definition flog :: "string \<Rightarrow> string \<Rightarrow> string \<Rightarrow> fmt_log" where
  "flog fd md hy =
     \<lparr>f_date = ''1/5/2025'', f_time = ''9:00:00 AM'', f_mood = ''calm'',
      f_sleep = ''Not recorded'', f_hydration = hy, f_food = fd, f_medication = md,
      f_antecedent = [], f_behavior = [], f_consequence = [], f_note = []\<rparr>"

text \<open>\<open>n\<close> formatted logs, \<open>k\<close> of them with a full meal; medication given and
  a drink taken in all.\<close>

definition pd_of :: "nat \<Rightarrow> nat \<Rightarrow> patient_data" where
  "pd_of k n =
     \<lparr>pd_patientId = ''p1'', patientName = ''Pat'', pd_diagnosis = ''Not specified'',
      daysAnalyzed = n,
      pd_logs = replicate k (flog ''full'' ''given'' ''full'')
                @ replicate (n - k) (flog ''partial'' ''given'' ''drank a cup'')\<rparr>"

text \<open>\<open>n\<close> formatted logs with a partial meal, a missed medication and no drink.\<close>

definition pd_poor :: "nat \<Rightarrow> patient_data" where
  "pd_poor n =
     \<lparr>pd_patientId = ''p1'', patientName = ''Pat'', pd_diagnosis = ''Not specified'',
      daysAnalyzed = n,
      pd_logs = replicate n (flog ''partial'' ''missed'' ''refused'')\<rparr>"

section \<open>Properties\<close>

subsection \<open>Authentication\<close>

text \<open>
  Claim C4, as amended. The middleware compares with \<^verbatim>\<open>session.expiresAt < Date.now()\<close>:
  a request whose token has a stored session is rejected with status 401 exactly when
  \<open>expiresAt < now\<close>, and is let through with the session's user snapshot when
  \<open>expiresAt \<ge> now\<close>; in particular a session is valid iff its (non-empty) token is
  found in the store and \<open>expiresAt \<ge> now\<close>. The row stays in the store either way.
\<close>

theorem requireAuth_expiry:
  "(bearer_token a q = Some t \<and> t \<noteq> [] \<and> find (\<lambda>s. token s = t) ss = Some s \<longrightarrow>
      requireAuth a q now ss =
        (if sess_expiresAt s < now then Inl (401, ''Invalid or expired session'')
         else Inr (suser s)))
   \<and> ((\<exists>u. requireAuth a q now ss = Inr u) \<longleftrightarrow>
        (\<exists>t s. bearer_token a q = Some t \<and> t \<noteq> [] \<and> find (\<lambda>s. token s = t) ss = Some s
               \<and> now \<le> sess_expiresAt s))"
proof (intro conjI impI)
  assume h: "bearer_token a q = Some t \<and> t \<noteq> [] \<and> find (\<lambda>s. token s = t) ss = Some s"
  then show "requireAuth a q now ss =
        (if sess_expiresAt s < now then Inl (401, ''Invalid or expired session'')
         else Inr (suser s))"
    by (simp add: requireAuth_def)
next
  show "(\<exists>u. requireAuth a q now ss = Inr u) \<longleftrightarrow>
        (\<exists>t s. bearer_token a q = Some t \<and> t \<noteq> [] \<and> find (\<lambda>s. token s = t) ss = Some s
               \<and> now \<le> sess_expiresAt s)"
    by (auto simp: requireAuth_def split: option.splits if_splits)
qed

theorem requireAuth_expiry_witness:
  "requireAuth (Some ''Bearer abc'') None 1000
     [\<lparr>token = ''abc'', suser = dr_dee, sess_expiresAt = 999\<rparr>]
   = Inl (401, ''Invalid or expired session'')
   \<and> requireAuth None (Some ''abc'') 1000
     [\<lparr>token = ''abc'', suser = dr_dee, sess_expiresAt = 1001\<rparr>]
   = Inr dr_dee"
  using requireAuth_expiry
    [of "Some ''Bearer abc''" None "''abc''"
        "[\<lparr>token = ''abc'', suser = dr_dee, sess_expiresAt = 999\<rparr>]"
        "\<lparr>token = ''abc'', suser = dr_dee, sess_expiresAt = 999\<rparr>" 1000]
    requireAuth_expiry
    [of None "Some ''abc''" "''abc''"
        "[\<lparr>token = ''abc'', suser = dr_dee, sess_expiresAt = 1001\<rparr>]"
        "\<lparr>token = ''abc'', suser = dr_dee, sess_expiresAt = 1001\<rparr>" 1000]
  by (simp add: bearer_token_def js_or_def)

text \<open>The claim as written asks for a rejection at \<open>expiresAt = now\<close>; the middleware
  accepts that request.\<close>

theorem requireAuth_boundary_counterexample:
  "sess_expiresAt \<lparr>token = ''abc'', suser = dr_dee, sess_expiresAt = 1000\<rparr> \<le> 1000
   \<and> requireAuth (Some ''Bearer abc'') None 1000
        [\<lparr>token = ''abc'', suser = dr_dee, sess_expiresAt = 1000\<rparr>]
      = Inr dr_dee"
  by (simp add: requireAuth_def bearer_token_def js_or_def)

subsection \<open>Patient visibility\<close>

text \<open>
  Claim C1, as amended. For a doctor with e-mail \<open>e\<close>, \<^verbatim>\<open>GET /api/patients\<close>
  returns exactly the stored patients whose legacy field \<open>assignedDoctorId\<close> equals
  \<open>e\<close>, or whose \<open>assignedDoctorIds\<close> contains \<open>e\<close>, or whose
  \<open>assignedDoctorIds\<close> is empty, null or absent, in stored order.
\<close>

theorem listPatients_doctor:
  "role u = ''doctor'' \<Longrightarrow>
     listPatients u d =
       filter (\<lambda>p. assignedDoctorId p = Some (email u)
                  \<or> (case assignedDoctorIds p of
                        Ids l \<Rightarrow> l = [] \<or> email u \<in> set l
                      | _ \<Rightarrow> True)) (patients d)"
  unfolding listPatients_def
  by (auto simp: legacy_is_def ids_has_def ids_size0_def ids_null_def ids_missing_def
        split: doctor_ids.splits intro!: filter_cong)

theorem listPatients_doctor_witness:
  "listPatients \<lparr>uid = ''1'', uname = ''Dee'', email = ''d@x'', role = ''doctor''\<rparr>
     \<lparr>patients =
        [\<lparr>pid = ''p1'', assignedDoctorId = None, assignedDoctorIds = Ids [''d@x'', ''o@x''],
          pname = None, diagnosis = None\<rparr>,
         \<lparr>pid = ''p2'', assignedDoctorId = None, assignedDoctorIds = Ids [''o@x''],
          pname = None, diagnosis = None\<rparr>,
         \<lparr>pid = ''p3'', assignedDoctorId = None, assignedDoctorIds = Absent,
          pname = None, diagnosis = None\<rparr>],
      logs = [], clinicianNotes = [], shareLinks = []\<rparr>
   = [\<lparr>pid = ''p1'', assignedDoctorId = None, assignedDoctorIds = Ids [''d@x'', ''o@x''],
          pname = None, diagnosis = None\<rparr>,
      \<lparr>pid = ''p3'', assignedDoctorId = None, assignedDoctorIds = Absent,
          pname = None, diagnosis = None\<rparr>]"
  using listPatients_doctor
    [of "\<lparr>uid = ''1'', uname = ''Dee'', email = ''d@x'', role = ''doctor''\<rparr>"
        "\<lparr>patients =
        [\<lparr>pid = ''p1'', assignedDoctorId = None, assignedDoctorIds = Ids [''d@x'', ''o@x''],
          pname = None, diagnosis = None\<rparr>,
         \<lparr>pid = ''p2'', assignedDoctorId = None, assignedDoctorIds = Ids [''o@x''],
          pname = None, diagnosis = None\<rparr>,
         \<lparr>pid = ''p3'', assignedDoctorId = None, assignedDoctorIds = Absent,
          pname = None, diagnosis = None\<rparr>],
      logs = [], clinicianNotes = [], shareLinks = []\<rparr>"]
  by simp

text \<open>The claim as written excludes every patient whose array is non-empty and lacks
  \<open>e\<close>; the first disjunct of the query returns such a patient when its legacy field
  names the doctor.\<close>

theorem listPatients_legacy_counterexample:
  "listPatients \<lparr>uid = ''1'', uname = ''Dee'', email = ''d@x'', role = ''doctor''\<rparr>
     \<lparr>patients =
        [\<lparr>pid = ''p1'', assignedDoctorId = Some ''d@x'', assignedDoctorIds = Ids [''o@x''],
          pname = None, diagnosis = None\<rparr>],
      logs = [], clinicianNotes = [], shareLinks = []\<rparr>
   = [\<lparr>pid = ''p1'', assignedDoctorId = Some ''d@x'', assignedDoctorIds = Ids [''o@x''],
          pname = None, diagnosis = None\<rparr>]
   \<and> [''o@x''] \<noteq> [] \<and> ''d@x'' \<notin> set [''o@x'']"
  by (simp add: listPatients_def legacy_is_def)

subsection \<open>Creating a patient\<close>

text \<open>
  Claim C7. \<^verbatim>\<open>POST /api/patients\<close> answers 400 when the body has no id, 409 when
  a patient with that id is stored, and otherwise, for a doctor, stores the patient with
  \<open>assignedDoctorIds\<close> equal to the one-element list of the doctor's e-mail, whatever
  the body held under that key.
\<close>

theorem createPatient_contract:
  "(b_id p = None \<longrightarrow> createPatient u (Some p) d = (Inl (400, ''id required''), d))
   \<and> (b_id p = Some i \<and> i \<noteq> [] \<and> (\<exists>q \<in> set (patients d). pid q = i) \<longrightarrow>
        createPatient u (Some p) d = (Inl (409, ''patient exists''), d))
   \<and> (b_id p = Some i \<and> i \<noteq> [] \<and> (\<forall>q \<in> set (patients d). pid q \<noteq> i) \<and> role u = ''doctor'' \<longrightarrow>
        (\<exists>q. createPatient u (Some p) d = (Inr q, d\<lparr>patients := patients d @ [q]\<rparr>)
             \<and> pid q = i \<and> assignedDoctorIds q = Ids [email u]))"
proof (intro conjI impI)
  assume "b_id p = None"
  then show "createPatient u (Some p) d = (Inl (400, ''id required''), d)"
    by (simp add: createPatient_def)
next
  assume h: "b_id p = Some i \<and> i \<noteq> [] \<and> (\<exists>q \<in> set (patients d). pid q = i)"
  then have "find (match_id (Some i)) (patients d) \<noteq> None"
    by (auto simp: find_None_iff match_id_def)
  with h show "createPatient u (Some p) d = (Inl (409, ''patient exists''), d)"
    by (auto simp: createPatient_def findOne_id_def)
next
  assume h: "b_id p = Some i \<and> i \<noteq> [] \<and> (\<forall>q \<in> set (patients d). pid q \<noteq> i)
             \<and> role u = ''doctor''"
  then have "find (match_id (Some i)) (patients d) = None"
    by (auto simp: find_None_iff match_id_def)
  with h show "\<exists>q. createPatient u (Some p) d = (Inr q, d\<lparr>patients := patients d @ [q]\<rparr>)
             \<and> pid q = i \<and> assignedDoctorIds q = Ids [email u]"
    by (simp add: createPatient_def findOne_id_def Patient_create_def Let_def)
qed

theorem createPatient_contract_witness:
  "createPatient dr_dee (Some (body1\<lparr>b_id := None\<rparr>)) empty_db = (Inl (400, ''id required''), empty_db)
   \<and> createPatient dr_dee (Some body1) db1 = (Inl (409, ''patient exists''), db1)
   \<and> createPatient dr_dee (Some body1) empty_db
       = (Inr \<lparr>pid = ''p1'', assignedDoctorId = None, assignedDoctorIds = Ids [''d@x''],
               pname = Some ''Pat'', diagnosis = None\<rparr>,
          \<lparr>patients = [\<lparr>pid = ''p1'', assignedDoctorId = None, assignedDoctorIds = Ids [''d@x''],
               pname = Some ''Pat'', diagnosis = None\<rparr>],
           logs = [], clinicianNotes = [], shareLinks = []\<rparr>)"
  using createPatient_contract [of "body1\<lparr>b_id := None\<rparr>" dr_dee empty_db "''p1''"]
        createPatient_contract [of body1 dr_dee db1 "''p1''"]
        createPatient_contract [of body1 dr_dee empty_db "''p1''"]
  by (simp add: body1_def db1_def pat1_def dr_dee_def empty_db_def createPatient_def
        findOne_id_def match_id_def Patient_create_def Let_def)

subsection \<open>Store invariants\<close>

lemma set_deleteOne: "set (deleteOne P xs) \<subseteq> set xs"
  by (induction xs) auto

lemma distinct_map_deleteOne:
  "distinct (map f xs) \<Longrightarrow> distinct (map f (deleteOne P xs))"
proof (induction xs)
  case Nil
  then show ?case by simp
next
  case (Cons x xs)
  have "f ` set (deleteOne P xs) \<subseteq> f ` set xs"
    using set_deleteOne [of P xs] by blast
  with Cons show ?case by auto
qed

lemma deleteOne_key_gone:
  "distinct (map f xs) \<Longrightarrow> x \<in> set (deleteOne (\<lambda>y. f y = k) xs) \<Longrightarrow> f x \<noteq> k"
proof (induction xs)
  case Nil
  then show ?case by simp
next
  case (Cons a xs)
  show ?case
  proof (cases "f a = k")
    case True
    with Cons.prems have "x \<in> set xs" and "f a \<notin> f ` set xs" by auto
    then show ?thesis using True by blast
  next
    case False
    with Cons show ?thesis by auto
  qed
qed

lemma find_append_None: "find P xs = None \<Longrightarrow> find P (xs @ ys) = find P ys"
  by (induction xs) (auto split: if_splits)

lemma deleteOne_none: "(\<forall>x \<in> set xs. \<not> P x) \<Longrightarrow> deleteOne P xs = xs"
  by (induction xs) auto

lemma deleteOne_idem:
  "distinct (map f xs) \<Longrightarrow>
   deleteOne (\<lambda>y. f y = k) (deleteOne (\<lambda>y. f y = k) xs) = deleteOne (\<lambda>y. f y = k) xs"
  by (rule deleteOne_none) (auto dest: deleteOne_key_gone)

lemma map_updateFirst_pid:
  "map pid (updateFirst P (\<lambda>p. p\<lparr>assignedDoctorIds := v\<rparr>) ps) = map pid ps"
  by (induction ps) auto

lemma shareLinks_createPatient: "shareLinks (snd (createPatient u body d)) = shareLinks d"
  by (simp add: createPatient_def Let_def split: option.splits)

lemma shareLinks_assignPatient: "shareLinks (snd (assignPatient u ps l d)) = shareLinks d"
  by (simp add: assignPatient_def Let_def split: option.splits)

lemma reachable_links_exclusive: "reachable d \<Longrightarrow> links_exclusive d"
proof (induction rule: reachable.induct)
  case r_init
  then show ?case by (simp add: links_exclusive_def empty_db_def)
next
  case (r_createPatient d u body)
  then show ?case by (simp add: links_exclusive_def shareLinks_createPatient)
next
  case (r_assignPatient d u x l)
  then show ?case by (simp add: links_exclusive_def shareLinks_assignPatient)
next
  case (r_deletePatient d i)
  then show ?case by (simp add: links_exclusive_def deletePatient_def distinct_map_deleteOne)
next
  case (r_createLog d i now lbody)
  then show ?case by (simp add: links_exclusive_def createLog_def Let_def)
next
  case (r_createNote d i now nbody)
  then show ?case by (simp add: links_exclusive_def createNote_def Let_def)
next
  case (r_createShareLink d port i rnd36 now)
  then show ?case
    using deleteOne_key_gone [of link_patientId "shareLinks d" _ i]
    by (auto simp: links_exclusive_def createShareLink_def Let_def distinct_map_deleteOne)
next
  case (r_getShareLink d i now)
  then show ?case
    by (simp add: links_exclusive_def getShareLink_def distinct_map_deleteOne
             split: option.splits)
next
  case (r_migrate d emails)
  then show ?case by (simp add: links_exclusive_def migratePatients_def)
qed

lemma patients_createPatient_distinct:
  "distinct (map pid (patients d)) \<Longrightarrow> distinct (map pid (patients (snd (createPatient u body d))))"
  by (auto simp: createPatient_def Let_def findOne_id_def find_None_iff match_id_def
        Patient_create_def split: option.splits)

lemma reachable_ids_unique: "reachable d \<Longrightarrow> ids_unique d"
proof (induction rule: reachable.induct)
  case r_init
  then show ?case by (simp add: ids_unique_def empty_db_def)
next
  case (r_createPatient d u body)
  then show ?case by (simp add: ids_unique_def patients_createPatient_distinct)
next
  case (r_assignPatient d u x l)
  then show ?case
    by (simp add: ids_unique_def assignPatient_def Let_def map_updateFirst_pid
             split: option.splits)
next
  case (r_deletePatient d i)
  then show ?case by (simp add: ids_unique_def deletePatient_def distinct_map_deleteOne)
next
  case (r_createLog d i now lbody)
  then show ?case by (simp add: ids_unique_def createLog_def Let_def)
next
  case (r_createNote d i now nbody)
  then show ?case by (simp add: ids_unique_def createNote_def Let_def)
next
  case (r_createShareLink d port i rnd36 now)
  then show ?case by (simp add: ids_unique_def createShareLink_def Let_def)
next
  case (r_getShareLink d i now)
  then show ?case by (simp add: ids_unique_def getShareLink_def split: option.splits)
next
  case (r_migrate d emails)
  have "pid \<circ> (\<lambda>p. if unassigned p then p\<lparr>assignedDoctorIds := Ids emails\<rparr> else p) = pid"
    by (rule ext) simp
  with r_migrate show ?case by (simp add: ids_unique_def migratePatients_def)
qed

lemma filter_deleteOne_key:
  "distinct (map f xs) \<Longrightarrow> filter (\<lambda>y. f y = k) (deleteOne (\<lambda>y. f y = k) xs) = []"
  by (auto simp: filter_empty_conv dest: deleteOne_key_gone)

text \<open>
  Claim C8. In every state the handlers produce, no two share links have the same
  \<open>patientId\<close>. Creating a link twice for one patient leaves exactly one link of
  that patient, the second one, with the second call's code and expiry, and
  \<^verbatim>\<open>GET /api/share/:patientId\<close> returns it until it expires.
\<close>

theorem shareLink_exclusive:
  assumes "reachable d"
  shows "distinct (map link_patientId (shareLinks d))
    \<and> (let (l1, d1) = createShareLink port i r1 n1 d;
            (l2, d2) = createShareLink port i r2 n2 d1
        in distinct (map link_patientId (shareLinks d2))
           \<and> filter (\<lambda>s. link_patientId s = i) (shareLinks d2) = [l2]
           \<and> code l2 = toUpperCase (slice 2 8 r2)
           \<and> link_expiresAt l2 = n2 + 24 * 60 * 60 * 1000
           \<and> (if link_expiresAt l2 < n then fst (getShareLink i n d2) = Inl (404, [])
              else fst (getShareLink i n d2) = Inr l2))"
proof -
  have d0: "distinct (map link_patientId (shareLinks d))"
    using assms reachable_links_exclusive by (simp add: links_exclusive_def)
  obtain l1 d1 where c1: "createShareLink port i r1 n1 d = (l1, d1)" by force
  obtain l2 d2 where c2: "createShareLink port i r2 n2 d1 = (l2, d2)" by force
  have r1: "reachable d1" using reachable.r_createShareLink [OF assms, of port i r1 n1] c1 by simp
  have r2: "reachable d2" using reachable.r_createShareLink [OF r1, of port i r2 n2] c2 by simp
  have d1: "distinct (map link_patientId (shareLinks d1))"
    using r1 reachable_links_exclusive by (simp add: links_exclusive_def)
  have d2: "distinct (map link_patientId (shareLinks d2))"
    using r2 reachable_links_exclusive by (simp add: links_exclusive_def)
  have s2: "shareLinks d2 = deleteOne (\<lambda>s. link_patientId s = i) (shareLinks d1) @ [l2]"
    and k2: "link_patientId l2 = i"
    and co: "code l2 = toUpperCase (slice 2 8 r2)"
    and ex: "link_expiresAt l2 = n2 + 24 * 60 * 60 * 1000"
    using c2 by (auto simp: createShareLink_def Let_def)
  have f2: "filter (\<lambda>s. link_patientId s = i) (shareLinks d2) = [l2]"
    using s2 k2 filter_deleteOne_key [OF d1, of i] by simp
  have fnd: "find (\<lambda>s. link_patientId s = i) (shareLinks d2) = Some l2"
  proof -
    have "\<forall>x \<in> set (deleteOne (\<lambda>s. link_patientId s = i) (shareLinks d1)). link_patientId x \<noteq> i"
      using deleteOne_key_gone [OF d1] by blast
    then have "find (\<lambda>s. link_patientId s = i) (deleteOne (\<lambda>s. link_patientId s = i) (shareLinks d1)) = None"
      by (simp add: find_None_iff)
    then show ?thesis using s2 k2 by (simp add: find_append_None)
  qed
  have g: "(if link_expiresAt l2 < n then fst (getShareLink i n d2) = Inl (404, [])
              else fst (getShareLink i n d2) = Inr l2)"
    using fnd by (simp add: getShareLink_def)
  show ?thesis using d0 c1 c2 d2 f2 co ex g by simp
qed

lemma reachable_db2: "reachable db2"
  unfolding db2_def by (intro reachable.intros)

theorem shareLink_exclusive_witness:
  "distinct (map link_patientId (shareLinks db2))
   \<and> map code (filter (\<lambda>s. link_patientId s = ''p1'')
        (shareLinks (snd (createShareLink ''3000'' ''p1'' ''0.k2j8x1q9abc'' 4000
           (snd (createShareLink ''3000'' ''p1'' ''0.zz81ab07fgh'' 3000 db2)))))) = [''K2J8X1'']
   \<and> map link_expiresAt (filter (\<lambda>s. link_patientId s = ''p1'')
        (shareLinks (snd (createShareLink ''3000'' ''p1'' ''0.k2j8x1q9abc'' 4000
           (snd (createShareLink ''3000'' ''p1'' ''0.zz81ab07fgh'' 3000 db2)))))) = [86404000]"
  using shareLink_exclusive [OF reachable_db2, of "''3000''" "''p1''" "''0.zz81ab07fgh''" 3000
          "''0.k2j8x1q9abc''" 4000 5000]
  by (simp add: split_beta Let_def createShareLink_def slice_def toUpperCase_def upper_char_def)

text \<open>
  Claim C10. \<^verbatim>\<open>DELETE /api/patients/:id\<close> answers \<^verbatim>\<open>{ ok: true }\<close>
  for every id, stored or not, and never 404; deleting the same id again leaves the four
  collections as the first deletion left them.
\<close>

theorem deletePatient_idempotent:
  "fst (deletePatient i d) = Inr True
   \<and> (reachable d \<longrightarrow>
        snd (deletePatient i (snd (deletePatient i d))) = snd (deletePatient i d))"
proof (intro conjI impI)
  show "fst (deletePatient i d) = Inr True" by (simp add: deletePatient_def)
next
  assume r: "reachable d"
  have p: "distinct (map pid (patients d))"
    using r reachable_ids_unique by (simp add: ids_unique_def)
  have l: "distinct (map link_patientId (shareLinks d))"
    using r reachable_links_exclusive by (simp add: links_exclusive_def)
  show "snd (deletePatient i (snd (deletePatient i d))) = snd (deletePatient i d)"
    using deleteOne_idem [OF p, of i] deleteOne_idem [OF l, of i]
    by (simp add: deletePatient_def deleteMany_def)
qed

theorem deletePatient_idempotent_witness:
  "fst (deletePatient ''nobody'' db2) = Inr True
   \<and> snd (deletePatient ''p1'' db2) = empty_db
   \<and> snd (deletePatient ''p1'' (snd (deletePatient ''p1'' db2))) = snd (deletePatient ''p1'' db2)"
  using deletePatient_idempotent [of "''nobody''" db2] deletePatient_idempotent [of "''p1''" db2]
        reachable_db2
  by (simp add: db2_def deletePatient_def deleteMany_def createShareLink_def createNote_def
        createLog_def createPatient_def findOne_id_def empty_db_def body1_def cg_cam_def
        Patient_create_def Let_def)

subsection \<open>The heuristic analysis\<close>

lemma half_round_lt:
  "0 < n \<Longrightarrow> ((200 * c + n) div (2 * n) < k) = (200 * c + n < 2 * k * n)" for n :: nat
  by (simp add: div_less_iff_less_mult mult.commute mult.left_commute)

lemma toFixed0_below:
  assumes "0 < n" and "200 * c < (2 * k + 1) * n"
  shows "pct_lt (toFixed0 h c n) (Suc k)"
proof -
  have "200 * c + n < 2 * Suc k * n" using assms(2) by (simp add: algebra_simps)
  then have "(200 * c + n) div (2 * n) < Suc k" using half_round_lt [OF assms(1)] by blast
  then show ?thesis using assms(1) by (auto simp: toFixed0_def pct_lt_def)
qed

lemma toFixed0_above:
  assumes "0 < n" and "(2 * k + 1) * n < 200 * c"
  shows "\<not> pct_lt (toFixed0 h c n) (Suc k)"
proof (cases "(200 * c) mod (2 * n) = n \<and> \<not> h c n")
  case False
  have "\<not> 200 * c + n < 2 * Suc k * n" using assms(2) by (simp add: algebra_simps)
  then have "\<not> (200 * c + n) div (2 * n) < Suc k" using half_round_lt [OF assms(1)] by blast
  then show ?thesis using assms(1) False by (auto simp: toFixed0_def pct_lt_def)
next
  case True
  define m where "m = (200 * c) div (2 * n)"
  have e: "200 * c = m * (2 * n) + n"
    using div_mult_mod_eq [of "200 * c" "2 * n"] True by (simp add: m_def)
  have "(2 * k) * n < (2 * m) * n" using assms(2) e by (simp add: algebra_simps)
  then have "k < m" by simp
  then have "Suc k \<le> m" by simp
  then have "(2 * Suc k) * n \<le> (2 * m) * n" by (intro mult_le_mono) simp_all
  then have "\<not> 200 * c + n < 2 * (Suc (Suc k)) * n" using e by (simp add: algebra_simps)
  then have "\<not> (200 * c + n) div (2 * n) < Suc (Suc k)"
    using half_round_lt [OF assms(1)] by blast
  then show ?thesis using assms(1) True by (auto simp: toFixed0_def pct_lt_def)
qed

lemma pct_ge_iff: "0 < n \<Longrightarrow> pct_ge (toFixed0 h c n) k = (\<not> pct_lt (toFixed0 h c n) k)"
  by (auto simp: toFixed0_def pct_ge_def pct_lt_def)

text \<open>
  Claim C5, as amended. For a non-empty list of logs the food flag is emitted iff the
  food percentage as displayed, that is rounded to a whole number, is below 70; the
  medication flag iff the rounded medication percentage is below 90; the hydration flag
  iff the rounded hydration percentage is below 60; and the single sentence about
  continuing the plan is the whole recommendation iff none of the three is below its
  threshold. In terms of the counts: the food flag is emitted when the exact percentage is
  below 69.5 and is not emitted when it is above 69.5 (89.5 and 59.5 for the other two).
\<close>

theorem basicAnalysis_thresholds:
  assumes "pd_logs pd \<noteq> []"
  shows
   "(''Monitor food intake closely. '' \<in> set (recommendations h pd)
       \<longleftrightarrow> pct_lt (foodPercent h pd) 70)
  \<and> (''Review medication schedule adherence. '' \<in> set (recommendations h pd)
       \<longleftrightarrow> pct_lt (medPercent h pd) 90)
  \<and> (''Encourage increased hydration. '' \<in> set (recommendations h pd)
       \<longleftrightarrow> pct_lt (hydrationPercent h pd) 60)
  \<and> (recommendations h pd = [''Overall compliance is good. Continue current care plan.'']
       \<longleftrightarrow> \<not> pct_lt (foodPercent h pd) 70 \<and> \<not> pct_lt (medPercent h pd) 90
           \<and> \<not> pct_lt (hydrationPercent h pd) 60)
  \<and> (200 * foodCompliance pd < 139 * length (pd_logs pd) \<longrightarrow> pct_lt (foodPercent h pd) 70)
  \<and> (139 * length (pd_logs pd) < 200 * foodCompliance pd \<longrightarrow> \<not> pct_lt (foodPercent h pd) 70)
  \<and> (200 * medCompliance pd < 179 * length (pd_logs pd) \<longrightarrow> pct_lt (medPercent h pd) 90)
  \<and> (179 * length (pd_logs pd) < 200 * medCompliance pd \<longrightarrow> \<not> pct_lt (medPercent h pd) 90)
  \<and> (200 * hydrationCompliance pd < 119 * length (pd_logs pd)
       \<longrightarrow> pct_lt (hydrationPercent h pd) 60)
  \<and> (119 * length (pd_logs pd) < 200 * hydrationCompliance pd
       \<longrightarrow> \<not> pct_lt (hydrationPercent h pd) 60)"
proof -
  have n: "0 < length (pd_logs pd)" using assms by simp
  have ge: "pct_ge (foodPercent h pd) 70 = (\<not> pct_lt (foodPercent h pd) 70)"
       "pct_ge (medPercent h pd) 90 = (\<not> pct_lt (medPercent h pd) 90)"
       "pct_ge (hydrationPercent h pd) 60 = (\<not> pct_lt (hydrationPercent h pd) 60)"
    using n by (simp_all add: foodPercent_def medPercent_def hydrationPercent_def pct_ge_iff)
  have flags:
   "(''Monitor food intake closely. '' \<in> set (recommendations h pd)
       \<longleftrightarrow> pct_lt (foodPercent h pd) 70)"
   "(''Review medication schedule adherence. '' \<in> set (recommendations h pd)
       \<longleftrightarrow> pct_lt (medPercent h pd) 90)"
   "(''Encourage increased hydration. '' \<in> set (recommendations h pd)
       \<longleftrightarrow> pct_lt (hydrationPercent h pd) 60)"
   "(recommendations h pd = [''Overall compliance is good. Continue current care plan.'']
       \<longleftrightarrow> \<not> pct_lt (foodPercent h pd) 70 \<and> \<not> pct_lt (medPercent h pd) 90
           \<and> \<not> pct_lt (hydrationPercent h pd) 60)"
    by (simp_all add: recommendations_def ge)
  have f1: "200 * foodCompliance pd < 139 * length (pd_logs pd) \<longrightarrow> pct_lt (foodPercent h pd) 70"
    using toFixed0_below [OF n, of "foodCompliance pd" 69 h] by (simp add: foodPercent_def)
  have f2: "139 * length (pd_logs pd) < 200 * foodCompliance pd \<longrightarrow> \<not> pct_lt (foodPercent h pd) 70"
    using toFixed0_above [OF n, of 69 "foodCompliance pd" h] by (simp add: foodPercent_def)
  have m1: "200 * medCompliance pd < 179 * length (pd_logs pd) \<longrightarrow> pct_lt (medPercent h pd) 90"
    using toFixed0_below [OF n, of "medCompliance pd" 89 h] by (simp add: medPercent_def)
  have m2: "179 * length (pd_logs pd) < 200 * medCompliance pd \<longrightarrow> \<not> pct_lt (medPercent h pd) 90"
    using toFixed0_above [OF n, of 89 "medCompliance pd" h] by (simp add: medPercent_def)
  have h1: "200 * hydrationCompliance pd < 119 * length (pd_logs pd)
       \<longrightarrow> pct_lt (hydrationPercent h pd) 60"
    using toFixed0_below [OF n, of "hydrationCompliance pd" 59 h]
    by (simp add: hydrationPercent_def)
  have h2: "119 * length (pd_logs pd) < 200 * hydrationCompliance pd
       \<longrightarrow> \<not> pct_lt (hydrationPercent h pd) 60"
    using toFixed0_above [OF n, of 59 "hydrationCompliance pd" h]
    by (simp add: hydrationPercent_def)
  show ?thesis using flags f1 f2 m1 m2 h1 h2 by blast
qed

lemma counts_pd_of:
  "foodCompliance (pd_of k n) = k" "length (pd_logs (pd_of k n)) = k + (n - k)"
  "medCompliance (pd_of k n) = k + (n - k)" "hydrationCompliance (pd_of k n) = k + (n - k)"
  by (simp_all add: foodCompliance_def medCompliance_def hydrationCompliance_def pd_of_def flog_def)

lemma counts_pd_poor:
  "foodCompliance (pd_poor n) = 0" "length (pd_logs (pd_poor n)) = n"
  "medCompliance (pd_poor n) = 0" "hydrationCompliance (pd_poor n) = 0"
  by (simp_all add: foodCompliance_def medCompliance_def hydrationCompliance_def pd_poor_def
        flog_def)

theorem basicAnalysis_thresholds_witness:
  "''Monitor food intake closely. '' \<in> set (recommendations always_up (pd_of 3 5))
   \<and> ''Monitor food intake closely. '' \<notin> set (recommendations always_up (pd_of 8 10))
   \<and> recommendations always_up (pd_of 8 10)
       = [''Overall compliance is good. Continue current care plan.'']
   \<and> ''Review medication schedule adherence. '' \<in> set (recommendations always_up (pd_poor 4))
   \<and> ''Encourage increased hydration. '' \<in> set (recommendations always_up (pd_poor 4))"
proof -
  have n1: "pd_logs (pd_of 3 5) \<noteq> []" by (simp add: pd_of_def)
  have n2: "pd_logs (pd_of 8 10) \<noteq> []" by (simp add: pd_of_def)
  have n3: "pd_logs (pd_poor 4) \<noteq> []" by (simp add: pd_poor_def)
  show ?thesis
    using basicAnalysis_thresholds [OF n1, of always_up]
          basicAnalysis_thresholds [OF n2, of always_up]
          basicAnalysis_thresholds [OF n3, of always_up]
    by (simp add: counts_pd_of counts_pd_poor)
qed

text \<open>The claim as written compares the percentage itself with 70. With 16 full meals in
  23 logs the percentage is 69.57, below 70, but it is displayed and compared as 70, so
  the flag is not emitted.\<close>

theorem basicAnalysis_rounding_counterexample:
  "100 * foodCompliance (pd_of 16 23) < 70 * length (pd_logs (pd_of 16 23))
   \<and> ''Monitor food intake closely. '' \<notin> set (recommendations always_up (pd_of 16 23))"
  by (simp add: counts_pd_of recommendations_def foodPercent_def medPercent_def
        hydrationPercent_def toFixed0_def pct_lt_def pct_ge_def always_up_def)

subsection \<open>The analysis request\<close>

text \<open>
  Claim C6. \<^verbatim>\<open>GET /api/analysis/:patientId\<close> answers 404 for an id no stored
  patient has. For a stored patient none of whose logs has
  \<open>createdAt \<ge> now - 7 \<times> 24h\<close> (the handler's window) it returns the fixed no-data
  response with \<open>hasData = false\<close>, and no prompt is sent to the text-generation
  service, configured or not.
\<close>

theorem generateAnalysis_no_data:
  "((\<forall>p \<in> set (patients d). pid p \<noteq> i) \<longrightarrow>
      generateAnalysis ai h fd ft now now' i d
        = (Inl (404, ''Patient with ID '' @ dquote @ i @ dquote @ '' not found in database''), []))
   \<and> ((\<exists>p \<in> set (patients d). pid p = i)
        \<and> (\<forall>l \<in> set (logs d). log_patientId l = i \<longrightarrow>
               log_createdAt l < now - 7 * 24 * 60 * 60 * 1000) \<longrightarrow>
      generateAnalysis ai h fd ft now now' i d
        = (Inr \<lparr>analysis = ''No data available for the last 7 days. Please ensure patient logs are being recorded regularly.'',
                hasData = False, generatedAt = None, ar_error = None, ar_note = None\<rparr>, []))"
proof (intro conjI impI)
  assume "\<forall>p \<in> set (patients d). pid p \<noteq> i"
  then have "findOne_id (Some i) (patients d) = None"
    by (auto simp: findOne_id_def find_None_iff match_id_def)
  then show "generateAnalysis ai h fd ft now now' i d
        = (Inl (404, ''Patient with ID '' @ dquote @ i @ dquote @ '' not found in database''), [])"
    by (simp add: generateAnalysis_def)
next
  assume a: "(\<exists>p \<in> set (patients d). pid p = i)
        \<and> (\<forall>l \<in> set (logs d). log_patientId l = i \<longrightarrow>
               log_createdAt l < now - 7 * 24 * 60 * 60 * 1000)"
  then have "findOne_id (Some i) (patients d) \<noteq> None"
    by (auto simp: findOne_id_def find_None_iff match_id_def)
  then obtain p where p: "findOne_id (Some i) (patients d) = Some p" by blast
  have "filter (\<lambda>l. log_patientId l = i \<and> now - 7 * 24 * 60 * 60 * 1000 \<le> log_createdAt l)
          (logs d) = []"
    using a by (auto simp: filter_empty_conv)
  then show "generateAnalysis ai h fd ft now now' i d
        = (Inr \<lparr>analysis = ''No data available for the last 7 days. Please ensure patient logs are being recorded regularly.'',
                hasData = False, generatedAt = None, ar_error = None, ar_note = None\<rparr>, [])"
    using p by (simp add: generateAnalysis_def Let_def)
qed

theorem generateAnalysis_no_data_witness:
  "generateAnalysis (Some echo_ai) always_up (\<lambda>t. ''d'') (\<lambda>t. ''t'') 604801001 604801002 ''p1''
      (db1\<lparr>logs := [old_log]\<rparr>)
    = (Inr \<lparr>analysis = ''No data available for the last 7 days. Please ensure patient logs are being recorded regularly.'',
                hasData = False, generatedAt = None, ar_error = None, ar_note = None\<rparr>, [])
   \<and> generateAnalysis (Some echo_ai) always_up (\<lambda>t. ''d'') (\<lambda>t. ''t'') 604801001 604801002 ''p9''
      (db1\<lparr>logs := [old_log]\<rparr>)
    = (Inl (404, ''Patient with ID '' @ dquote @ ''p9'' @ dquote @ '' not found in database''), [])"
  using generateAnalysis_no_data [of "db1\<lparr>logs := [old_log]\<rparr>" "''p1''" "Some echo_ai" always_up
          "\<lambda>t. ''d''" "\<lambda>t. ''t''" 604801001 604801002]
        generateAnalysis_no_data [of "db1\<lparr>logs := [old_log]\<rparr>" "''p9''" "Some echo_ai" always_up
          "\<lambda>t. ''d''" "\<lambda>t. ''t''" 604801001 604801002]
  by (simp add: db1_def pat1_def old_log_def)

text \<open>Conversely, one log of the patient inside the window is enough for a response with
  \<open>hasData = true\<close>.\<close>

lemma generateAnalysis_has_data:
  assumes "findOne_id (Some i) (patients d) = Some p"
    and "l \<in> set (logs d)" and "log_patientId l = i"
    and "now - 7 * 24 * 60 * 60 * 1000 \<le> log_createdAt l"
  shows "\<exists>r. fst (generateAnalysis ai h fd ft now now' i d) = Inr r \<and> hasData r"
proof -
  define ls where "ls = sort_key log_createdAt
          (filter (\<lambda>l. log_patientId l = i \<and> now - 604800000 \<le> log_createdAt l)
          (logs d))"
  have "l \<in> set ls" using assms by (simp add: ls_def)
  then have n: "length ls \<noteq> 0" by auto
  show ?thesis
  proof (cases ai)
    case None
    then show ?thesis using assms(1) n
      by (simp add: generateAnalysis_def Let_def ls_def [symmetric])
  next
    case (Some complete)
    then show ?thesis using assms(1) n
      by (cases "complete (build_prompt
            \<lparr>pd_patientId = pid p,
             patientName = or_default (pname p) (''Patient '' @ pid p),
             pd_diagnosis = or_default (diagnosis p) ''Not specified'',
             daysAnalyzed = length ls,
             pd_logs = map (format_log fd ft) ls\<rparr>)")
         (simp_all add: generateAnalysis_def Let_def ls_def [symmetric])
  qed
qed

subsection \<open>Creating a log\<close>

text \<open>
  Claim C2. The handler writes \<^verbatim>\<open>patientId\<close> and \<^verbatim>\<open>createdAt\<close> first
  and spreads the payload after them. Posted to \<^verbatim>\<open>/api/logs/p1\<close> at time 5000, a
  payload with its own \<^verbatim>\<open>patientId\<close> and \<^verbatim>\<open>createdAt\<close> is stored under
  patient \<open>p2\<close> with time 1, not under the path parameter with the server's clock.
\<close>

theorem createLog_payload_overrides:
  "fst (createLog ''p1'' 5000
          (Some \<lparr>lb_patientId = Some ''p2'', lb_createdAt = Some 1, lb_content = empty_content\<rparr>)
          db1)
   = \<lparr>log_patientId = ''p2'', log_createdAt = 1, content = empty_content\<rparr>"
  by (simp add: createLog_def Let_def)

text \<open>For a payload without those two keys the stored log carries the path parameter,
  the server's clock and the payload's fields as they are.\<close>

lemma createLog_stamps:
  "lb_patientId b = None \<Longrightarrow> lb_createdAt b = None \<Longrightarrow>
   createLog i now (Some b) d
     = (\<lparr>log_patientId = i, log_createdAt = now, content = lb_content b\<rparr>,
        d\<lparr>logs := logs d @ [\<lparr>log_patientId = i, log_createdAt = now, content = lb_content b\<rparr>]\<rparr>)"
  by (simp add: createLog_def Let_def)

subsection \<open>Assigning a patient\<close>

text \<open>
  Claim C3. The route names its parameter \<^verbatim>\<open>id\<close> and the handler reads
  \<^verbatim>\<open>patientId\<close>, so the lookup is made with \<^verbatim>\<open>undefined\<close> and never with
  the id in the path: a caregiver assigning the stored patient \<open>p1\<close> to a non-empty
  list is answered 404 and the patient keeps its list.
\<close>

theorem assignPatient_ignores_path_id:
  "findOne_id (Some ''p1'') (patients db0) = Some pat1
   \<and> assignPatient cg_cam (assign_route_params ''p1'') (Some [''b@x'']) db0
       = (Inl (404, ''Patient not found''), db0)"
  by (simp add: assignPatient_def assign_route_params_def findOne_id_def match_id_def
        db0_def pat0_def pat1_def cg_cam_def)

text \<open>So it is for every caregiver, path id, non-empty list and state; had the lookup
  found the patient, the list would have been replaced as a whole.\<close>

lemma assignPatient_route_never_assigns:
  "role u = ''caregiver'' \<Longrightarrow> l \<noteq> [] \<Longrightarrow>
   assignPatient u (assign_route_params x) (Some l) d = (Inl (404, ''Patient not found''), d)"
  unfolding assignPatient_def findOne_id_def assign_route_params_def
  by (auto simp: match_id_def find_None_iff Let_def split: option.splits)

lemma assignPatient_replaces_when_found:
  "role u = ''caregiver'' \<Longrightarrow> l \<noteq> [] \<Longrightarrow> findOne_id (params ''patientId'') (patients d) = Some p \<Longrightarrow>
   fst (assignPatient u params (Some l) d) = Inr (p\<lparr>assignedDoctorIds := Ids l\<rparr>)"
  by (simp add: assignPatient_def Let_def)

subsection \<open>The share code\<close>

text \<open>
  Claim C9. The code is the upper-cased characters 3 to 8 of the base-36 rendering of a
  random number. \<^verbatim>\<open>Math.random()\<close> can return 0.5, rendered \<^verbatim>\<open>0.i\<close>; the
  code is then the single character \<open>I\<close>.
\<close>

theorem createShareLink_short_code:
  "code (fst (createShareLink ''3000'' ''p1'' ''0.i'' 1000 db1)) = ''I''
   \<and> length (code (fst (createShareLink ''3000'' ''p1'' ''0.i'' 1000 db1))) = 1"
  by (simp add: createShareLink_def slice_def toUpperCase_def upper_char_def Let_def)

text \<open>In general the code has \<open>min 6 (length rnd36 - 2)\<close> characters, all of them
  upper-case letters or digits when the rendering has base-36 digits after its first
  two characters, and the expiry is 24 hours after the creation time.\<close>

lemma upper_char_base36: "base36_digit c \<Longrightarrow> upper_alnum (upper_char c)"
  by (auto simp: base36_digit_def upper_alnum_def upper_char_def)

lemma createShareLink_code_expiry:
  "length (code (fst (createShareLink port i r now d))) = min 6 (length r - 2)
   \<and> link_expiresAt (fst (createShareLink port i r now d)) = now + 86400000
   \<and> ((\<forall>c \<in> set (drop 2 r). base36_digit c) \<longrightarrow>
        (\<forall>c \<in> set (code (fst (createShareLink port i r now d))). upper_alnum c))"
  by (auto simp: createShareLink_def slice_def toUpperCase_def Let_def
        dest!: in_set_takeD intro: upper_char_base36)

end
